theory Spec2Isabelle
  imports Complex_Main
begin

section \<open>Errors\<close>

text \<open>
  Every \<^verbatim>\<open>raise\<close> of \<^verbatim>\<open>alphapy/features.py\<close> and every exception of the Python
  runtime that the modelled code can meet is a value of this type. A function that can
  raise returns \<open>error + 'a\<close>, with \<open>Inl\<close> for the exception.
\<close>

datatype error =
    ValueError
  | TypeError
  | ZeroDivisionError
  | IndexError
  | KeyError
  | LibraryError

section \<open>Sequential statistics: \<^verbatim>\<open>rtotal\<close>, \<^verbatim>\<open>runs\<close>, \<^verbatim>\<open>streak\<close>, \<^verbatim>\<open>zscore\<close>\<close>

text \<open>\<^verbatim>\<open>np.count_nonzero(vec)\<close>: the number of entries different from zero.\<close>

definition count_nonzero :: "real list \<Rightarrow> int" where
  "count_nonzero vec = int (length (filter (\<lambda>v. v \<noteq> 0) vec))"

text \<open>
  \<^verbatim>\<open>itertools.groupby(vec)\<close> with no key: the maximal blocks of equal neighbours,
  in order.
\<close>

fun groupby :: "real list \<Rightarrow> real list list" where
  "groupby [] = []"
| "groupby (x # xs) =
     (case groupby xs of
        [] \<Rightarrow> [[x]]
      | g # gs \<Rightarrow> (if hd g = x then (x # g) # gs else [x] # g # gs))"

definition rtotal :: "real list \<Rightarrow> int" where
  "rtotal vec =
     (let tcount = count_nonzero vec;
          fcount = int (length vec) - tcount
      in tcount - fcount)"

definition runs :: "real list \<Rightarrow> int" where
  "runs vec = int (length (groupby vec))"

text \<open>\<^verbatim>\<open>[...][-1]\<close> raises IndexError on the empty list.\<close>

definition streak :: "real list \<Rightarrow> error + int" where
  "streak vec =
     (case map length (groupby vec) of
        [] \<Rightarrow> Inl IndexError
      | ls \<Rightarrow> Inr (int (last ls)))"

text \<open>
  Division of two Python floats raises ZeroDivisionError when the divisor is zero
  (also for a zero dividend); \<^verbatim>\<open>math.sqrt\<close> raises ValueError below zero.
\<close>

definition float_div :: "real \<Rightarrow> real \<Rightarrow> error + real" where
  "float_div a b = (if b = 0 then Inl ZeroDivisionError else Inr (a / b))"

definition math_sqrt :: "real \<Rightarrow> error + real" where
  "math_sqrt v = (if v < 0 then Inl ValueError else Inr (sqrt v))"

text \<open>
  \<^verbatim>\<open>zscore\<close>, statement by statement. Both divisions and the square root are
  evaluated before the test \<^verbatim>\<open>if sr2den and sr\<close> is reached.
\<close>

definition zscore :: "real list \<Rightarrow> error + real" where
  "zscore vec =
     (let n1 = count_nonzero vec;
          n2 = int (length vec) - n1;
          fac1 = real_of_int (2 * n1 * n2);
          fac2 = real_of_int (n1 + n2)
      in case float_div fac1 fac2 of
           Inl e \<Rightarrow> Inl e
         | Inr q \<Rightarrow>
             (let rbar = q + 1;
                  sr2num = fac1 * (fac1 - real_of_int n1 - real_of_int n2);
                  sr2den = fac2 ^ 2 * (fac2 - 1)
              in case float_div sr2num sr2den of
                   Inl e \<Rightarrow> Inl e
                 | Inr v \<Rightarrow>
                     (case math_sqrt v of
                        Inl e \<Rightarrow> Inl e
                      | Inr sr \<Rightarrow>
                          Inr (if sr2den \<noteq> 0 \<and> sr \<noteq> 0
                               then (real_of_int (runs vec) - rbar) / sr
                               else 0))))"

section \<open>Data model\<close>

text \<open>
  A pandas cell is NaN, \<^verbatim>\<open>None\<close>, a number (the float, integer and boolean
  columns; \<^verbatim>\<open>True == 1\<close> in pandas) or a string. NaN and \<^verbatim>\<open>None\<close> are both
  missing values (\<^verbatim>\<open>isnull\<close>), but they are different values: \<^verbatim>\<open>unique()\<close> keeps
  them apart in a column of dtype object. A column has a name, a dtype and its cells;
  a DataFrame is the list of its columns, in column order.
\<close>

datatype cell = NaN | PyNone | Num real | Str string

definition isnull :: "cell \<Rightarrow> bool" where
  "isnull c = (c = NaN \<or> c = PyNone)"

datatype dtype = dt_float64 | dt_int64 | dt_bool | dt_object | dt_other

record column =
  cname :: string
  ctype :: dtype
  cells :: "cell list"

type_synonym dataframe = "column list"

text \<open>
  A two-dimensional numeric array of the feature pipeline (a FeatureBlock or the
  FeatureMatrix) is the list of its rows, every row with one entry for each column; an
  array of shape \<open>(n, 0)\<close> is \<open>n\<close> empty rows, and an empty DataFrame of shape
  \<open>(0, 0)\<close> is the empty list. \<^verbatim>\<open>np.column_stack\<close> raises ValueError unless both
  arrays have the same number of rows, and joins them row by row; it takes a
  one-dimensional array as one column. \<^verbatim>\<open>np.delete(a, 0, axis=1)\<close> drops the first
  entry of every row.
\<close>

type_synonym array = "real list list"

definition column_stack :: "array \<Rightarrow> array \<Rightarrow> error + array" where
  "column_stack a b =
     (if length a = length b then Inr (map (\<lambda>r. fst r @ snd r) (zip a b))
      else Inl ValueError)"

definition as_column :: "real list \<Rightarrow> array" where
  "as_column v = map (\<lambda>x. [x]) v"

text \<open>
  The feature selector only picks columns by position, so the two matrices of a model
  are kept as the lists of their columns.
\<close>

type_synonym matrix = "real list list"

definition nrows :: "dataframe \<Rightarrow> nat" where
  "nrows X = (case X of [] \<Rightarrow> 0 | c # _ \<Rightarrow> length (cells c))"

datatype Encoders =
  factorize | onehot | ordinal | binary | helmert | sumcont | polynomial | backdiff

text \<open>
  The constants of \<^verbatim>\<open>alphapy.globs\<close>, which is not part of the sources, are
  parameters.
\<close>

record globs =
  NULLTEXT :: string
  USEP :: string

text \<open>
  The numeric libraries (scikit-learn, SciPy, category\_encoders) are parameters: each
  routine is a function of its arguments that returns its result or raises.
  \<^verbatim>\<open>Imputer\<close> is \<^verbatim>\<open>fit_transform\<close> of the imputer with the given strategy on one
  column, whose result is that column imputed; \<^verbatim>\<open>normaltest\<close> returns the p-value
  of \<^verbatim>\<open>scipy.stats.normaltest\<close> on a sample of at least 8 values;
  \<^verbatim>\<open>tfidf\<close> is \<^verbatim>\<open>CountVectorizer\<close> with n-grams up to its first argument followed by
  \<^verbatim>\<open>TfidfTransformer\<close>; \<^verbatim>\<open>ce_fit_transform\<close> is \<^verbatim>\<open>fit_transform\<close> of the encoder
  of category\_encoders for the named column; \<^verbatim>\<open>eval\<close> evaluates the call string of a
  treatment with the DataFrame bound to \<^verbatim>\<open>df\<close>; \<^verbatim>\<open>SelectPercentile\<close> is
  \<^verbatim>\<open>fit\<close> followed by \<^verbatim>\<open>get_support\<close>.
\<close>

record lib =
  Imputer :: "string \<Rightarrow> cell list \<Rightarrow> error + real list"
  normaltest :: "real list \<Rightarrow> error + real"
  tfidf :: "int \<Rightarrow> cell list \<Rightarrow> error + array"
  get_dummies :: "cell list \<Rightarrow> array"
  ce_fit_transform :: "Encoders \<Rightarrow> string \<Rightarrow> cell list \<Rightarrow> error + array"
  eval :: "string \<Rightarrow> dataframe \<Rightarrow> error + array"
  StandardScaler :: "array \<Rightarrow> error + array"
  MinMaxScaler :: "array \<Rightarrow> error + array"
  SelectPercentile :: "string \<Rightarrow> real \<Rightarrow> matrix \<Rightarrow> real list \<Rightarrow> error + bool list"

section \<open>pandas operations\<close>

text \<open>
  \<^verbatim>\<open>pd.factorize\<close>: the distinct non-missing values in order of first appearance,
  and for every cell the position of its value there, \<open>-1\<close> for a missing cell.
\<close>

fun first_seen :: "cell list \<Rightarrow> cell list \<Rightarrow> cell list" where
  "first_seen seen [] = seen"
| "first_seen seen (c # cs) =
     (if isnull c \<or> c \<in> set seen then first_seen seen cs
      else first_seen (seen @ [c]) cs)"

fun index_of :: "cell \<Rightarrow> cell list \<Rightarrow> nat" where
  "index_of c [] = 0"
| "index_of c (u # us) = (if c = u then 0 else Suc (index_of c us))"

definition pd_factorize :: "cell list \<Rightarrow> int list \<times> cell list" where
  "pd_factorize feature =
     (let uniques = first_seen [] feature
      in (map (\<lambda>c. if isnull c then - 1 else int (index_of c uniques)) feature, uniques))"

text \<open>
  \<^verbatim>\<open>len(X[fc].unique())\<close>: the distinct cells; NaN counts once and \<^verbatim>\<open>None\<close> counts
  once, each as a value of its own.
\<close>

definition n_unique :: "cell list \<Rightarrow> int" where
  "n_unique cs = int (length (remdups cs))"

text \<open>\<^verbatim>\<open>fillna(value)\<close> on a column of strings.\<close>

definition fillna_str :: "string \<Rightarrow> cell list \<Rightarrow> cell list" where
  "fillna_str v cs = map (\<lambda>c. if isnull c then Str v else c) cs"

text \<open>
  \<^verbatim>\<open>feature.str.len()\<close> is the length of a string cell and NaN for any other cell;
  \<^verbatim>\<open>min\<close> and \<^verbatim>\<open>max\<close> skip NaN and are NaN when nothing is left, and \<^verbatim>\<open>int(nan)\<close>
  raises ValueError.
\<close>

definition str_lens :: "cell list \<Rightarrow> nat list" where
  "str_lens cs = concat (map (\<lambda>c. case c of Str s \<Rightarrow> [length s] | _ \<Rightarrow> []) cs)"

definition int_min :: "nat list \<Rightarrow> error + int" where
  "int_min ls = (case ls of [] \<Rightarrow> Inl ValueError | l # r \<Rightarrow> Inr (int (fold min r l)))"

definition int_max :: "nat list \<Rightarrow> error + int" where
  "int_max ls = (case ls of [] \<Rightarrow> Inl ValueError | l # r \<Rightarrow> Inr (int (fold max r l)))"

text \<open>
  \<^verbatim>\<open>pd.crosstab(X[fname], y).apply(lambda r : r / r.sum(), axis=1)\<close> followed by
  \<^verbatim>\<open>to_dict()[target_value]\<close>: over the rows whose category is not missing, the
  share of rows with the label \<open>t\<close> among the rows of each category. A category with no
  row has no entry.
\<close>

definition crosstab_rows :: "cell list \<Rightarrow> real list \<Rightarrow> (cell \<times> real) list" where
  "crosstab_rows xs y = filter (\<lambda>r. \<not> isnull (fst r)) (zip xs y)"

definition ct_rate :: "(cell \<times> real) list \<Rightarrow> real \<Rightarrow> cell \<Rightarrow> real option" where
  "ct_rate rows t c =
     (let r = filter (\<lambda>p. fst p = c) rows
      in if r = [] then None
         else Some (real (length (filter (\<lambda>p. snd p = t) r)) / real (length r)))"

section \<open>Transforms of one column\<close>

text \<open>
  \<^verbatim>\<open>float_factor\<close>: the value is printed with \<^verbatim>\<open>rounding\<close> decimals (Python
  rounds the exact value to the nearest decimal, ties to even), everything but the
  digits is removed and the digits are read as an integer. Sign and decimal point drop
  out, so the result is the rounded value of \<open>\<bar>x\<bar> * 10 ^ rounding\<close>. NaN prints as
  \<^verbatim>\<open>nan\<close>, which has no digit and gives 0. A negative precision and a string argument
  make \<^verbatim>\<open>format\<close> raise ValueError, the argument \<^verbatim>\<open>None\<close> makes it raise TypeError.
\<close>

definition round_half_even :: "real \<Rightarrow> int" where
  "round_half_even x =
     (let f = \<lfloor>x\<rfloor>
      in if x - of_int f < 1 / 2 then f
         else if 1 / 2 < x - of_int f then f + 1
         else if even f then f else f + 1)"

definition float_factor :: "cell \<Rightarrow> int \<Rightarrow> error + cell" where
  "float_factor x rounding =
     (if rounding < 0 then Inl ValueError
      else case x of
             NaN \<Rightarrow> Inr (Num 0)
           | PyNone \<Rightarrow> Inl TypeError
           | Num v \<Rightarrow> Inr (Num (of_int (round_half_even (\<bar>v\<bar> * 10 ^ nat rounding))))
           | Str s \<Rightarrow> Inl ValueError)"

text \<open>\<^verbatim>\<open>feature.apply(f)\<close>: the first call that raises ends the loop.\<close>

fun apply_cells :: "(cell \<Rightarrow> error + cell) \<Rightarrow> cell list \<Rightarrow> error + cell list" where
  "apply_cells f [] = Inr []"
| "apply_cells f (c # cs) =
     (case f c of
        Inl e \<Rightarrow> Inl e
      | Inr d \<Rightarrow> (case apply_cells f cs of Inl e \<Rightarrow> Inl e | Inr ds \<Rightarrow> Inr (d # ds)))"

text \<open>
  \<^verbatim>\<open>get_factors\<close>. The arguments \<^verbatim>\<open>df, fname\<close> are the column \<open>fc\<close> itself, and
  \<^verbatim>\<open>X[fname]\<close> is \<open>xtrain\<close>, the cells of that column in the training partition. The
  result is \<open>None\<close> when the function returns \<^verbatim>\<open>None\<close>: \<^verbatim>\<open>all_features\<close> is assigned
  only when \<^verbatim>\<open>enc\<close> is set, and the branches of \<^verbatim>\<open>factorize\<close> and \<^verbatim>\<open>onehot\<close> set
  \<^verbatim>\<open>ce_features\<close> and leave \<^verbatim>\<open>enc\<close> at \<^verbatim>\<open>None\<close>. The labels \<open>y\<close> are an array
  with one entry for each training row (\<^verbatim>\<open>pd.crosstab\<close> raises ValueError on arrays
  of different lengths), and \<^verbatim>\<open>to_dict()[target_value]\<close> raises KeyError when no
  counted row has the target value as its label.
\<close>

definition target_rates ::
  "column \<Rightarrow> real \<Rightarrow> real \<Rightarrow> cell list \<Rightarrow> real list \<Rightarrow> error + real list" where
  "target_rates fc sentinel target_value xtrain y =
     (if length xtrain \<noteq> length y then Inl ValueError
      else let ct = crosstab_rows xtrain y
           in if target_value \<notin> snd ` set ct then Inl KeyError
              else Inr (map (\<lambda>c. case ct_rate ct target_value c of
                                    None \<Rightarrow> sentinel
                                  | Some r \<Rightarrow> r) (cells fc)))"

definition get_factors ::
  "lib \<Rightarrow> column \<Rightarrow> dtype \<Rightarrow> Encoders option \<Rightarrow> int \<Rightarrow> real \<Rightarrow> real \<Rightarrow>
   cell list \<Rightarrow> real list \<Rightarrow> bool \<Rightarrow> error + array option" where
  "get_factors L fc dtype encoder rounding sentinel target_value xtrain y classify =
     (case (if dtype = dt_float64
            then apply_cells (\<lambda>x. float_factor x rounding) (cells fc)
            else Inr (cells fc)) of
        Inl e \<Rightarrow> Inl e
      | Inr feature \<Rightarrow>
          (case encoder of
             None \<Rightarrow> Inl ValueError
           | Some factorize \<Rightarrow> (let ce_features = fst (pd_factorize feature) in Inr None)
           | Some onehot \<Rightarrow> (let ce_features = get_dummies L feature in Inr None)
           | Some enc \<Rightarrow>
               (case ce_fit_transform L enc (cname fc) feature of
                  Inl e \<Rightarrow> Inl e
                | Inr all_features \<Rightarrow>
                    if classify
                    then (case target_rates fc sentinel target_value xtrain y of
                            Inl e \<Rightarrow> Inl e
                          | Inr ct_feature \<Rightarrow>
                              (case column_stack all_features (as_column ct_feature) of
                                 Inl e \<Rightarrow> Inl e
                               | Inr m \<Rightarrow> Inr (Some m)))
                    else Inr (Some all_features))))"

text \<open>
  \<^verbatim>\<open>impute_values\<close> on one column, and \<^verbatim>\<open>get_numerical_features\<close>.
  \<^verbatim>\<open>np.all(new_values > 0)\<close> holds when every value is positive.
  \<^verbatim>\<open>sps.normaltest\<close> starts with \<^verbatim>\<open>skewtest\<close>, which raises ValueError on a sample
  of fewer than 8 values; the call in \<^verbatim>\<open>get_numerical_features\<close> is not guarded.
\<close>

definition sps_normaltest :: "lib \<Rightarrow> real list \<Rightarrow> error + real" where
  "sps_normaltest L vs = (if length vs < 8 then Inl ValueError else normaltest L vs)"

definition impute_values :: "lib \<Rightarrow> cell list \<Rightarrow> dtype \<Rightarrow> error + real list" where
  "impute_values L features dt =
     (if dt = dt_float64 then Imputer L ''median'' features
      else if dt = dt_int64 \<or> dt = dt_bool then Imputer L ''most_frequent'' features
      else Inl TypeError)"

definition get_numerical_features ::
  "lib \<Rightarrow> column \<Rightarrow> dtype \<Rightarrow> bool \<Rightarrow> real \<Rightarrow> error + real list" where
  "get_numerical_features L fc dt logt plevel =
     (case impute_values L (cells fc) dt of
        Inl e \<Rightarrow> Inl e
      | Inr new_values \<Rightarrow>
          if logt \<and> list_all (\<lambda>v. 0 < v) new_values
          then (case sps_normaltest L new_values of
                  Inl e \<Rightarrow> Inl e
                | Inr pvalue \<Rightarrow>
                    if pvalue \<le> plevel then Inr (map ln new_values) else Inr new_values)
          else Inr new_values)"

text \<open>
  \<^verbatim>\<open>get_text_features\<close>. The two lengths are computed, for the log line, before the
  missing values are filled. Any exception of the vectorizer is caught. The codes of
  \<^verbatim>\<open>pd.factorize\<close> are a one-dimensional array, stacked later as one column.
\<close>

definition get_text_features ::
  "lib \<Rightarrow> globs \<Rightarrow> column \<Rightarrow> bool \<Rightarrow> int \<Rightarrow> error + array" where
  "get_text_features L G fc vectorize ngrams_max =
     (case int_min (str_lens (cells fc)) of
        Inl e \<Rightarrow> Inl e
      | Inr min_length \<Rightarrow>
          (case int_max (str_lens (cells fc)) of
             Inl e \<Rightarrow> Inl e
           | Inr max_length \<Rightarrow>
               (let feature = fillna_str (NULLTEXT G) (cells fc)
                in if vectorize
                   then (case tfidf L ngrams_max feature of
                           Inr new_features \<Rightarrow> Inr new_features
                         | Inl e \<Rightarrow>
                             Inr (as_column (map real_of_int (fst (pd_factorize feature)))))
                   else Inr (as_column (map real_of_int (fst (pd_factorize feature)))))))"

text \<open>
  \<^verbatim>\<open>apply_treatment\<close>: \<^verbatim>\<open>fparams[0]\<close> raises IndexError on an empty list; the call
  string is built as the code builds it and evaluated. Each parameter is given by its
  \<^verbatim>\<open>str\<close>. The evaluated function returns its block or raises; it is taken to leave
  the frame as it is.
\<close>

fun join :: "string \<Rightarrow> string list \<Rightarrow> string" where
  "join sep [] = []"
| "join sep [p] = p"
| "join sep (p # ps) = p @ sep @ join sep ps"

definition apply_treatment :: "lib \<Rightarrow> string \<Rightarrow> dataframe \<Rightarrow> string list \<Rightarrow> error + array" where
  "apply_treatment L fname df fparams =
     (case fparams of
        [] \<Rightarrow> Inl IndexError
      | func # plist \<Rightarrow>
          (let fcall =
                 (if plist \<noteq> []
                  then func @ ''(df, '' @ [CHR 0x27] @ fname @ [CHR 0x27] @ '', ''
                         @ join '', '' plist @ '')''
                  else func @ ''(df, '' @ [CHR 0x27] @ fname @ [CHR 0x27] @ '', '' @ '')'')
           in eval L fcall df))"

section \<open>The treatment \<^verbatim>\<open>runs_test\<close>\<close>

text \<open>
  \<^verbatim>\<open>fc.rolling(window=window).apply(f)\<close> followed by \<^verbatim>\<open>fillna(0)\<close>: the value at a
  row is \<open>f\<close> of the \<open>window\<close> cells that end at this row; a row before the window is
  full, and a window that holds a cell which is not a number, has no value and is
  filled with 0 (so is every row for a window of size 0). The first call of \<open>f\<close> that
  raises ends the computation.
\<close>

definition num_value :: "cell \<Rightarrow> real option" where
  "num_value c = (case c of Num v \<Rightarrow> Some v | _ \<Rightarrow> None)"

definition rolling_window :: "nat \<Rightarrow> cell list \<Rightarrow> nat \<Rightarrow> real list option" where
  "rolling_window window cs i =
     (if window = 0 \<or> i + 1 < window then None
      else those (map num_value (take window (drop (i + 1 - window) cs))))"

fun rolling_apply ::
  "(real list \<Rightarrow> error + real) \<Rightarrow> nat \<Rightarrow> cell list \<Rightarrow> nat list \<Rightarrow> error + real list" where
  "rolling_apply f window cs [] = Inr []"
| "rolling_apply f window cs (i # rest) =
     (case (case rolling_window window cs i of None \<Rightarrow> Inr 0 | Some vec \<Rightarrow> f vec) of
        Inl e \<Rightarrow> Inl e
      | Inr v \<Rightarrow>
          (case rolling_apply f window cs rest of
             Inl e \<Rightarrow> Inl e
           | Inr vs \<Rightarrow> Inr (v # vs)))"

text \<open>
  \<^verbatim>\<open>runs_test\<close>, with the column for \<^verbatim>\<open>f, c\<close>: one new column for each requested
  statistic that is known, in the order requested (all four when \<^verbatim>\<open>'all'\<close> is among
  them); an unknown name is only logged. \<^verbatim>\<open>rolling\<close> raises on a column of dtype
  object. With no known name the result is the empty DataFrame, of shape \<open>(0, 0)\<close>.
\<close>

definition all_funcs :: "(string \<times> (real list \<Rightarrow> error + real)) list" where
  "all_funcs =
     [(''runs'', \<lambda>vec. Inr (real_of_int (runs vec))),
      (''streak'', \<lambda>vec. case streak vec of Inl e \<Rightarrow> Inl e | Inr n \<Rightarrow> Inr (real_of_int n)),
      (''rtotal'', \<lambda>vec. Inr (real_of_int (rtotal vec))),
      (''zscore'', zscore)]"

fun runs_features :: "column \<Rightarrow> nat \<Rightarrow> string list \<Rightarrow> error + real list list" where
  "runs_features fc window [] = Inr []"
| "runs_features fc window (w # ws) =
     (case map_of all_funcs w of
        None \<Rightarrow> runs_features fc window ws
      | Some f \<Rightarrow>
          if ctype fc = dt_object then Inl LibraryError
          else (case rolling_apply f window (cells fc) [0..<length (cells fc)] of
                  Inl e \<Rightarrow> Inl e
                | Inr new_feature \<Rightarrow>
                    (case runs_features fc window ws of
                       Inl e \<Rightarrow> Inl e
                     | Inr new_features \<Rightarrow> Inr (new_feature # new_features))))"

definition runs_test :: "column \<Rightarrow> string list \<Rightarrow> nat \<Rightarrow> error + array" where
  "runs_test fc wfuncs window =
     (case runs_features fc window
             (if ''all'' \<in> set wfuncs then map fst all_funcs else wfuncs) of
        Inl e \<Rightarrow> Inl e
      | Inr new_features \<Rightarrow> Inr (transpose new_features))"

section \<open>Configuration\<close>

datatype Scalers = standard | minmax

text \<open>
  Modelled from the spec: \<^verbatim>\<open>ModelType\<close> of \<^verbatim>\<open>alphapy.estimators\<close> is not part of
  the sources; the code tests a model type against \<^verbatim>\<open>ModelType.classification\<close> and
  \<^verbatim>\<open>ModelType.regression\<close> only, the spec calls the tasks classification and
  regression.
\<close>

datatype ModelType = classification | regression | other_model_type

text \<open>
  \<^verbatim>\<open>model.specs\<close>, the options read by \<^verbatim>\<open>create_features\<close> and
  \<^verbatim>\<open>select_features\<close>. An option that holds no member of its enumeration
  (\<^verbatim>\<open>encoder\<close>, \<^verbatim>\<open>scaler_type\<close>) is \<open>None\<close>. \<^verbatim>\<open>treatments\<close> maps a column name to
  the function name followed by its parameters.
\<close>

record specs =
  clustering :: bool
  counts :: bool
  dummy_limit :: int
  encoder :: "Encoders option"
  isomap :: bool
  logtransform :: bool
  model_type :: ModelType
  ngrams_max :: int
  numpy :: bool
  pca :: bool
  pvalue_level :: real
  rounding :: int
  scaler_option :: bool
  scaler_type :: "Scalers option"
  scipy :: bool
  sentinel :: real
  target_value :: real
  treatments :: "string \<rightharpoonup> string list"
  tsne :: bool
  vectorize :: bool
  fs_percentage :: real
  fs_score_func :: string

text \<open>
  The generators of derived features of this module (\<^verbatim>\<open>create_numpy_features\<close> to
  \<^verbatim>\<open>create_tsne_features\<close>) only wrap numeric library routines and are parameters
  as well: functions of the base matrix, and of the model's options where the code
  passes the model.
\<close>

record generators =
  create_numpy_features :: "array \<Rightarrow> error + array"
  create_scipy_features :: "array \<Rightarrow> error + array"
  create_clusters :: "array \<Rightarrow> specs \<Rightarrow> error + array"
  create_pca_features :: "array \<Rightarrow> specs \<Rightarrow> error + array"
  create_isomap_features :: "array \<Rightarrow> specs \<Rightarrow> error + array"
  create_tsne_features :: "array \<Rightarrow> specs \<Rightarrow> error + array"

section \<open>The pipeline: \<^verbatim>\<open>create_features\<close>\<close>

text \<open>
  The count features. \<^verbatim>\<open>X[name] = values\<close> replaces the column of that name or
  appends a new last column. \<^verbatim>\<open>X.count(axis=1)\<close> counts, in each row, the cells that
  are not missing. \<^verbatim>\<open>(X == i).astype(int).sum(axis=1)\<close> counts, in each row of the
  frame as it is at that moment, the cells equal to \<open>i\<close>. Every column of a DataFrame
  has \<open>nrows X\<close> cells.
\<close>

definition setitem :: "dataframe \<Rightarrow> string \<Rightarrow> cell list \<Rightarrow> dataframe" where
  "setitem X nm cs =
     (if nm \<in> cname ` set X
      then map (\<lambda>c. if cname c = nm then c\<lparr>ctype := dt_int64, cells := cs\<rparr> else c) X
      else X @ [\<lparr>cname = nm, ctype = dt_int64, cells = cs\<rparr>])"

definition count_axis1 :: "dataframe \<Rightarrow> cell list" where
  "count_axis1 X =
     map (\<lambda>r. Num (real (length (filter (\<lambda>c. \<not> isnull (cells c ! r)) X)))) [0..<nrows X]"

definition eq_sum_axis1 :: "dataframe \<Rightarrow> nat \<Rightarrow> cell list" where
  "eq_sum_axis1 X i =
     map (\<lambda>r. Num (real (length (filter (\<lambda>c. cells c ! r = Num (real i)) X)))) [0..<nrows X]"

definition str_digit :: "nat \<Rightarrow> string" where
  "str_digit i = [''0123456789'' ! i]"

definition count_features :: "globs \<Rightarrow> dataframe \<Rightarrow> dataframe" where
  "count_features G X =
     fold (\<lambda>i X. setitem X (''count'' @ USEP G @ str_digit i) (eq_sum_axis1 X i))
       [0..<10]
       (setitem X ''nan_count'' (count_axis1 X))"

text \<open>
  The body of the loop over the columns: first the treatment, when one is configured
  for the column, then the dispatch on cardinality and dtype. \<open>features\<close> is \<open>None\<close> when
  \<^verbatim>\<open>get_factors\<close> returned \<^verbatim>\<open>None\<close>. \<^verbatim>\<open>X_train\<close> is the first \<^verbatim>\<open>split_point\<close> rows.
\<close>

definition treat_column ::
  "lib \<Rightarrow> specs \<Rightarrow> dataframe \<Rightarrow> column \<Rightarrow> array \<Rightarrow> error + array" where
  "treat_column L S X fc all_features =
     (case treatments S (cname fc) of
        None \<Rightarrow> Inr all_features
      | Some fparams \<Rightarrow>
          (case apply_treatment L (cname fc) X fparams of
             Inl e \<Rightarrow> Inl e
           | Inr features \<Rightarrow> column_stack all_features features))"

definition standard_features ::
  "lib \<Rightarrow> globs \<Rightarrow> specs \<Rightarrow> nat \<Rightarrow> real list \<Rightarrow> column \<Rightarrow> error + array option" where
  "standard_features L G S split_point y_train fc =
     (let dtype = ctype fc;
          nuniq = n_unique (cells fc)
      in if nuniq \<le> dummy_limit S
         then get_factors L fc dtype (encoder S) (rounding S) (sentinel S) (target_value S)
                (take split_point (cells fc)) y_train (model_type S = classification)
         else if dtype = dt_float64 \<or> dtype = dt_int64 \<or> dtype = dt_bool
         then (case get_numerical_features L fc dtype (logtransform S) (pvalue_level S) of
                 Inl e \<Rightarrow> Inl e
               | Inr v \<Rightarrow> Inr (Some (as_column v)))
         else if dtype = dt_object
         then (case get_text_features L G fc (vectorize S) (ngrams_max S) of
                 Inl e \<Rightarrow> Inl e
               | Inr m \<Rightarrow> Inr (Some m))
         else Inl TypeError)"

definition column_step ::
  "lib \<Rightarrow> globs \<Rightarrow> specs \<Rightarrow> dataframe \<Rightarrow> nat \<Rightarrow> real list \<Rightarrow> column \<Rightarrow> array \<Rightarrow>
   error + array" where
  "column_step L G S X split_point y_train fc all_features =
     (case treat_column L S X fc all_features of
        Inl e \<Rightarrow> Inl e
      | Inr treated \<Rightarrow>
          (case standard_features L G S split_point y_train fc of
             Inl e \<Rightarrow> Inl e
           | Inr None \<Rightarrow> Inr treated
           | Inr (Some features) \<Rightarrow> column_stack treated features))"

fun base_loop ::
  "lib \<Rightarrow> globs \<Rightarrow> specs \<Rightarrow> dataframe \<Rightarrow> nat \<Rightarrow> real list \<Rightarrow> column list \<Rightarrow> array \<Rightarrow>
   error + array" where
  "base_loop L G S X split_point y_train [] all_features = Inr all_features"
| "base_loop L G S X split_point y_train (fc # rest) all_features =
     (case column_step L G S X split_point y_train fc all_features of
        Inl e \<Rightarrow> Inl e
      | Inr stacked \<Rightarrow> base_loop L G S X split_point y_train rest stacked)"

text \<open>
  Scaling: an unrecognised scaler is only logged and the matrix stays as it is.
\<close>

definition scale_features :: "lib \<Rightarrow> specs \<Rightarrow> array \<Rightarrow> error + array" where
  "scale_features L S all_features =
     (if scaler_option S
      then (case scaler_type S of
              Some standard \<Rightarrow> StandardScaler L all_features
            | Some minmax \<Rightarrow> MinMaxScaler L all_features
            | None \<Rightarrow> Inr all_features)
      else Inr all_features)"

text \<open>
  The derived features: each enabled generator reads the base matrix, and its block is
  stacked onto the matrix built so far.
\<close>

definition add_features :: "bool \<Rightarrow> error + array \<Rightarrow> array \<Rightarrow> error + array" where
  "add_features flag generated all_features =
     (if flag
      then (case generated of Inl e \<Rightarrow> Inl e | Inr f \<Rightarrow> column_stack all_features f)
      else Inr all_features)"

definition and_then :: "error + 'a \<Rightarrow> ('a \<Rightarrow> error + 'b) \<Rightarrow> error + 'b" where
  "and_then r f = (case r of Inl e \<Rightarrow> Inl e | Inr v \<Rightarrow> f v)"

definition derived_features :: "generators \<Rightarrow> specs \<Rightarrow> array \<Rightarrow> error + array" where
  "derived_features Gn S base_features =
     and_then (add_features (numpy S) (create_numpy_features Gn base_features) base_features)
       (\<lambda>a1. and_then (add_features (scipy S) (create_scipy_features Gn base_features) a1)
       (\<lambda>a2. and_then (add_features (clustering S) (create_clusters Gn base_features S) a2)
       (\<lambda>a3. and_then (add_features (pca S) (create_pca_features Gn base_features S) a3)
       (\<lambda>a4. and_then (add_features (isomap S) (create_isomap_features Gn base_features S) a4)
       (\<lambda>a5. add_features (tsne S) (create_tsne_features Gn base_features S) a5)))))"

text \<open>
  \<^verbatim>\<open>create_features\<close>: the matrix starts as one column of zeros
  (\<^verbatim>\<open>np.zeros((X.shape[0], 1))\<close>), which is deleted after the loop.
\<close>

definition base_features ::
  "lib \<Rightarrow> globs \<Rightarrow> dataframe \<Rightarrow> specs \<Rightarrow> nat \<Rightarrow> real list \<Rightarrow> error + array" where
  "base_features L G X0 S split_point y_train =
     (let X = (if counts S then count_features G X0 else X0)
      in case base_loop L G S X split_point y_train X (replicate (nrows X) [0]) of
           Inl e \<Rightarrow> Inl e
         | Inr all_features \<Rightarrow> Inr (map (drop 1) all_features))"

definition create_features ::
  "lib \<Rightarrow> generators \<Rightarrow> globs \<Rightarrow> dataframe \<Rightarrow> specs \<Rightarrow> nat \<Rightarrow> real list \<Rightarrow>
   error + array" where
  "create_features L Gn G X S split_point y_train =
     and_then (base_features L G X S split_point y_train)
       (\<lambda>all_features. and_then (scale_features L S all_features) (derived_features Gn S))"

section \<open>Feature selection\<close>

record model =
  X_train :: matrix
  X_test :: matrix
  y_train :: "real list"
  y_test :: "real list"
  specs :: specs

text \<open>
  \<^verbatim>\<open>a[:, support]\<close> with a boolean mask: numpy raises IndexError unless the mask has
  one entry for each column, and keeps the columns whose entry is true.
\<close>

definition mask_columns :: "matrix \<Rightarrow> bool list \<Rightarrow> error + matrix" where
  "mask_columns a support =
     (if length support \<noteq> length a then Inl IndexError
      else Inr (map fst (filter snd (zip a support))))"

definition select_features :: "lib \<Rightarrow> model \<Rightarrow> error + model" where
  "select_features L m =
     (case SelectPercentile L (fs_score_func (specs m)) (fs_percentage (specs m))
             (X_train m) (y_train m) of
        Inl e \<Rightarrow> Inl e
      | Inr support \<Rightarrow>
          (case mask_columns (X_train m) support of
             Inl e \<Rightarrow> Inl e
           | Inr X_train_new \<Rightarrow>
               (case mask_columns (X_test m) support of
                  Inl e \<Rightarrow> Inl e
                | Inr X_test_new \<Rightarrow>
                    Inr (m\<lparr>X_train := X_train_new, X_test := X_test_new\<rparr>))))"

section \<open>A small instance of the parameters\<close>

text \<open>
  To run the model on concrete inputs the parameters need values. The constants are
  those of AlphaPy. The library instance is a simple one: the imputer returns a column
  of numbers as it is and raises on any other column (it does not impute), the
  normality test returns the p-value \<open>1/2\<close>, the vectorizer raises (as on an empty
  vocabulary), the encoders of category\_encoders all return the codes of first
  appearance counted from 1, the scalers return their argument, the percentile
  selector keeps the columns that are not all zero, and every generator of derived
  features raises. \<^verbatim>\<open>eval\<close> knows one call, \<^verbatim>\<open>runs_test(df, 'c', ['runs'], 2)\<close>,
  and raises on any other string.
\<close>

definition example_globs :: globs where
  "example_globs = \<lparr>NULLTEXT = ''NULLTEXT'', USEP = ''_''\<rparr>"

definition example_call :: string where
  "example_call =
     ''runs_test(df, '' @ [CHR 0x27] @ ''c'' @ [CHR 0x27] @ '', ['' @ [CHR 0x27] @ ''runs''
       @ [CHR 0x27] @ ''], 2)''"

definition example_lib :: lib where
  "example_lib =
     \<lparr>Imputer = (\<lambda>strategy cs.
         case those (map num_value cs) of None \<Rightarrow> Inl LibraryError | Some vs \<Rightarrow> Inr vs),
      normaltest = (\<lambda>vs. Inr (1 / 2)),
      tfidf = (\<lambda>n cs. Inl LibraryError),
      get_dummies = (\<lambda>cs. []),
      ce_fit_transform = (\<lambda>enc nm cs.
         Inr (as_column (map (\<lambda>k. real_of_int (k + 1)) (fst (pd_factorize cs))))),
      eval = (\<lambda>fcall df.
         if fcall = example_call
         then (case find (\<lambda>c. cname c = ''c'') df of
                 None \<Rightarrow> Inl KeyError
               | Some fc \<Rightarrow> runs_test fc [''runs''] 2)
         else Inl LibraryError),
      StandardScaler = (\<lambda>a. Inr a),
      MinMaxScaler = (\<lambda>a. Inr a),
      SelectPercentile = (\<lambda>score_func percentile a labels.
         Inr (map (\<lambda>c. \<not> list_all (\<lambda>v. v = 0) c) a))\<rparr>"

definition example_generators :: generators where
  "example_generators =
     \<lparr>create_numpy_features = (\<lambda>a. Inl LibraryError),
      create_scipy_features = (\<lambda>a. Inl LibraryError),
      create_clusters = (\<lambda>a S. Inl LibraryError),
      create_pca_features = (\<lambda>a S. Inl LibraryError),
      create_isomap_features = (\<lambda>a S. Inl LibraryError),
      create_tsne_features = (\<lambda>a S. Inl LibraryError)\<rparr>"

text \<open>
  Options with every gate closed: no counts, no treatments, no scaling, no derived
  features, the encoder \<^verbatim>\<open>factorize\<close>, a dummy limit of 10, a classification task with
  target value 1 and sentinel \<open>-1\<close>.
\<close>

definition example_specs :: specs where
  "example_specs =
     \<lparr>clustering = False, counts = False, dummy_limit = 10, encoder = Some factorize,
      isomap = False, logtransform = False, model_type = classification, ngrams_max = 1,
      numpy = False, pca = False, pvalue_level = 1 / 20, rounding = 0,
      scaler_option = False, scaler_type = Some standard, scipy = False, sentinel = - 1,
      target_value = 1, treatments = Map.empty, tsne = False, vectorize = False,
      fs_percentage = 50, fs_score_func = ''f_classif''\<rparr>"

text \<open>
  A model with three training columns, the second of which is all zero, and three test
  columns.
\<close>

definition example_model :: model where
  "example_model =
     \<lparr>X_train = [[1, 2], [0, 0], [3, 0]], X_test = [[5], [6], [7]],
      y_train = [1, 0], y_test = [1], specs = example_specs\<rparr>"

section \<open>Properties of the sequential statistics\<close>

lemma count_nonzero_bounds: "0 \<le> count_nonzero vec \<and> count_nonzero vec \<le> int (length vec)"
  by (simp add: count_nonzero_def)

text \<open>
  C5, at the window \<open>[1]\<close> (a rolling window of size one): the variance denominator
  \<open>(n1+n2)^2 * (n1+n2-1)\<close> is zero there, and the code raises ZeroDivisionError at
  \<^verbatim>\<open>sr2num / sr2den\<close> instead of returning 0.
\<close>

theorem zscore_singleton_raises: "zscore [1] = Inl ZeroDivisionError"
  by (simp add: zscore_def count_nonzero_def float_div_def)

text \<open>
  On windows of at least two values the degenerate cases do return 0: all values zero
  or all values nonzero, as in the constant window \<open>[1, 1, 1, 1]\<close>.
\<close>

lemma zscore_degenerate:
  assumes "2 \<le> length vec"
      and "count_nonzero vec = 0 \<or> count_nonzero vec = int (length vec)"
  shows "zscore vec = Inr 0"
  using assms by (auto simp: zscore_def float_div_def math_sqrt_def Let_def)

lemma zscore_constant_window: "zscore [1, 1, 1, 1] = Inr 0"
  by (rule zscore_degenerate) (simp_all add: count_nonzero_def)


section \<open>Properties of the encoding stage\<close>

text \<open>
  C1, at a column of cardinality 3 with the encoder \<^verbatim>\<open>factorize\<close> and a dummy limit of
  10 (a regression task, so no target rates are involved): \<^verbatim>\<open>pd.factorize\<close> gives
  the codes 0, 1, 2 in first-seen order, but \<^verbatim>\<open>get_factors\<close> keeps them in
  \<^verbatim>\<open>ce_features\<close> only and returns \<^verbatim>\<open>None\<close>, so \<^verbatim>\<open>create_features\<close> appends no
  block: the resulting matrix has three rows and no column.
\<close>

theorem factorize_block_not_appended:
  "fst (pd_factorize [Str ''a'', Str ''b'', Str ''c'']) = [0, 1, 2] \<and>
   get_factors example_lib
     \<lparr>cname = ''c'', ctype = dt_object, cells = [Str ''a'', Str ''b'', Str ''c'']\<rparr>
     dt_object (Some factorize) 0 (- 1) 1 [Str ''a'', Str ''b'', Str ''c''] [1, 0, 1] False
     = Inr None \<and>
   create_features example_lib example_generators example_globs
     [\<lparr>cname = ''c'', ctype = dt_object, cells = [Str ''a'', Str ''b'', Str ''c'']\<rparr>]
     (example_specs\<lparr>model_type := regression\<rparr>) 3 [1, 0, 1] = Inr [[], [], []]"
  by (simp add: create_features_def base_features_def example_specs_def and_then_def
      column_step_def treat_column_def standard_features_def n_unique_def get_factors_def
      scale_features_def derived_features_def add_features_def pd_factorize_def nrows_def
      isnull_def numeral_3_eq_3)

text \<open>
  C2, at a classification run with the encoder \<^verbatim>\<open>factorize\<close>, a column
  \<open>a, b, a, c\<close> whose first three rows are the training partition, and the labels
  \<open>1, 0, 1\<close>: the rates of the training partition would be \<open>1, 0, 1\<close> and the sentinel
  \<open>-1\<close> for the unseen category \<open>c\<close>, but \<^verbatim>\<open>get_factors\<close> computes them only when
  \<^verbatim>\<open>enc\<close> is set; it returns \<^verbatim>\<open>None\<close>, and no rate column reaches the matrix.
\<close>

theorem factorize_no_rate_column:
  "target_rates
     \<lparr>cname = ''c'', ctype = dt_object, cells = [Str ''a'', Str ''b'', Str ''a'', Str ''c'']\<rparr>
     (- 1) 1 [Str ''a'', Str ''b'', Str ''a''] [1, 0, 1] = Inr [1, 0, 1, - 1] \<and>
   get_factors example_lib
     \<lparr>cname = ''c'', ctype = dt_object, cells = [Str ''a'', Str ''b'', Str ''a'', Str ''c'']\<rparr>
     dt_object (Some factorize) 0 (- 1) 1 [Str ''a'', Str ''b'', Str ''a''] [1, 0, 1] True
     = Inr None \<and>
   create_features example_lib example_generators example_globs
     [\<lparr>cname = ''c'', ctype = dt_object, cells = [Str ''a'', Str ''b'', Str ''a'', Str ''c'']\<rparr>]
     example_specs 3 [1, 0, 1] = Inr [[], [], [], []]"
  by (simp add: create_features_def base_features_def example_specs_def and_then_def
      column_step_def treat_column_def standard_features_def n_unique_def get_factors_def
      scale_features_def derived_features_def add_features_def pd_factorize_def nrows_def
      target_rates_def crosstab_rows_def ct_rate_def isnull_def numeral_eq_Suc)

text \<open>
  For the encoders of category\_encoders the rate column is built as described: the
  rate of the training partition for a category seen there, the sentinel for any other
  cell, appended after the encoded block.
\<close>

lemma ct_rate_unseen: "c \<notin> set xtrain \<Longrightarrow> ct_rate (crosstab_rows xtrain labels) tv c = None"
proof -
  assume "c \<notin> set xtrain"
  then have "filter (\<lambda>p. fst p = c) (crosstab_rows xtrain labels) = []"
    by (auto simp: crosstab_rows_def filter_empty_conv dest: set_zip_leftD)
  then show ?thesis by (simp add: ct_rate_def)
qed

lemma target_rates_values:
  assumes "target_rates fc snt tv xtrain labels = Inr rates"
  shows "rates = map (\<lambda>c. case ct_rate (crosstab_rows xtrain labels) tv c of
                             None \<Rightarrow> snt | Some r \<Rightarrow> r) (cells fc)"
  using assms by (auto simp: target_rates_def Let_def split: if_splits)

lemma target_rates_unseen:
  assumes "target_rates fc snt tv xtrain labels = Inr rates"
      and "i < length (cells fc)" and "cells fc ! i \<notin> set xtrain"
  shows "rates ! i = snt"
proof -
  from assms(1) have "rates = map (\<lambda>c. case ct_rate (crosstab_rows xtrain labels) tv c of
                             None \<Rightarrow> snt | Some r \<Rightarrow> r) (cells fc)"
    by (rule target_rates_values)
  with assms(2) ct_rate_unseen [OF assms(3)] show ?thesis by simp
qed

lemma get_factors_appends_rates:
  assumes "enc \<noteq> factorize" and "enc \<noteq> onehot" and "dtype \<noteq> dt_float64"
      and "ce_fit_transform L enc (cname fc) (cells fc) = Inr block"
      and "target_rates fc snt tv xtrain labels = Inr rates"
      and "length block = length rates"
  shows "get_factors L fc dtype (Some enc) rnd snt tv xtrain labels True
           = Inr (Some (map (\<lambda>r. fst r @ snd r) (zip block (as_column rates))))"
  using assms
  by (cases enc) (simp_all add: get_factors_def column_stack_def as_column_def)

section \<open>Properties of the numerical transform\<close>

text \<open>
  C4, as stated, fails on a column of fewer than 8 positive values with the
  log-transform option on: \<^verbatim>\<open>sps.normaltest\<close> raises ValueError there and the call is
  not guarded, so the transform neither takes the logarithm nor returns the imputed
  column.
\<close>

theorem short_column_log_raises:
  "get_numerical_features example_lib
      \<lparr>cname = ''x'', ctype = dt_float64, cells = [Num 1, Num 2, Num 4]\<rparr>
      dt_float64 True (1 / 20) = Inl ValueError"
  by (simp add: get_numerical_features_def impute_values_def example_lib_def
      sps_normaltest_def num_value_def)

text \<open>
  C4, amended: for a column of dtype float64, int64 or bool whose imputation returns,
  \<^verbatim>\<open>get_numerical_features\<close> returns the imputed column unchanged when the
  log-transform option is off or some imputed value is not positive. When the option is
  on and every imputed value is positive, it raises ValueError on fewer than 8 values;
  on at least 8 values, when the normality test returns its p-value, it returns the
  elementwise natural logarithm of the imputed column if the p-value is at most the
  threshold and the imputed column itself otherwise.
\<close>

theorem log_transform_gate:
  assumes "dt = dt_float64 \<or> dt = dt_int64 \<or> dt = dt_bool"
      and "impute_values L (cells fc) dt = Inr imputed"
  shows "(\<not> (logt \<and> (\<forall>v \<in> set imputed. 0 < v)) \<longrightarrow>
            get_numerical_features L fc dt logt plevel = Inr imputed) \<and>
         (logt \<and> (\<forall>v \<in> set imputed. 0 < v) \<and> length imputed < 8 \<longrightarrow>
            get_numerical_features L fc dt logt plevel = Inl ValueError) \<and>
         (logt \<and> (\<forall>v \<in> set imputed. 0 < v) \<and> 8 \<le> length imputed \<and>
          normaltest L imputed = Inr pvalue \<longrightarrow>
            get_numerical_features L fc dt logt plevel =
              Inr (if pvalue \<le> plevel then map ln imputed else imputed))"
  using assms by (auto simp: get_numerical_features_def list_all_iff sps_normaltest_def)

theorem log_transform_gate_witness:
  "get_numerical_features example_lib
      \<lparr>cname = ''x'', ctype = dt_float64,
         cells = [Num 1, Num 2, Num 3, Num 4, Num 5, Num 6, Num 7, Num 8]\<rparr>
      dt_float64 True 1
     = Inr [ln 1, ln 2, ln 3, ln 4, ln 5, ln 6, ln 7, ln 8] \<and>
   get_numerical_features example_lib
      \<lparr>cname = ''x'', ctype = dt_float64, cells = [Num 1, Num (- 2), Num 4]\<rparr>
      dt_float64 True 1
     = Inr [1, - 2, 4] \<and>
   get_numerical_features example_lib
      \<lparr>cname = ''x'', ctype = dt_float64, cells = [Num 1, Num 2, Num 4]\<rparr>
      dt_float64 True 1
     = Inl ValueError"
  using log_transform_gate [where dt = dt_float64 and L = example_lib
          and fc = "\<lparr>cname = ''x'', ctype = dt_float64,
                       cells = [Num 1, Num 2, Num 3, Num 4, Num 5, Num 6, Num 7, Num 8]\<rparr>"
          and imputed = "[1, 2, 3, 4, 5, 6, 7, 8]" and pvalue = "1 / 2" and logt = True
          and plevel = 1]
        log_transform_gate [where dt = dt_float64 and L = example_lib
          and fc = "\<lparr>cname = ''x'', ctype = dt_float64, cells = [Num 1, Num (- 2), Num 4]\<rparr>"
          and imputed = "[1, - 2, 4]" and logt = True and plevel = 1]
        log_transform_gate [where dt = dt_float64 and L = example_lib
          and fc = "\<lparr>cname = ''x'', ctype = dt_float64, cells = [Num 1, Num 2, Num 4]\<rparr>"
          and imputed = "[1, 2, 4]" and logt = True and plevel = 1]
  by (simp add: impute_values_def example_lib_def num_value_def)

section \<open>Properties of the count features\<close>

lemma upt_ten: "[0..<10] = [0, 1, 2, 3, 4, 5, 6, 7, 8, 9 :: nat]"
  by code_simp

text \<open>
  C6, at a frame with the single column \<open>a = [7]\<close>, which has no missing value and no
  cell equal to 1: the column \<^verbatim>\<open>nan_count\<close> is 1, the number of cells that are not
  missing (\<^verbatim>\<open>X.count(axis=1)\<close>), and \<^verbatim>\<open>count_1\<close> is 1 as well, since the comparison
  \<^verbatim>\<open>X == 1\<close> runs over the frame that already holds \<^verbatim>\<open>nan_count\<close> and
  \<^verbatim>\<open>count_0\<close>.
\<close>

theorem count_features_nan_count:
  "map (\<lambda>c. (cname c, cells c))
     (count_features example_globs [\<lparr>cname = ''a'', ctype = dt_int64, cells = [Num 7]\<rparr>]) =
   [(''a'', [Num 7]), (''nan_count'', [Num 1]), (''count_0'', [Num 0]),
    (''count_1'', [Num 1]), (''count_2'', [Num 0]), (''count_3'', [Num 0]),
    (''count_4'', [Num 0]), (''count_5'', [Num 0]), (''count_6'', [Num 0]),
    (''count_7'', [Num 1]), (''count_8'', [Num 0]), (''count_9'', [Num 0])]"
  by (simp add: count_features_def example_globs_def setitem_def count_axis1_def
      eq_sum_axis1_def nrows_def str_digit_def upt_ten isnull_def)

section \<open>Properties of the text transform\<close>

lemma fillna_str_no_missing: "c \<in> set (fillna_str v cs) \<Longrightarrow> \<not> isnull c"
  by (auto simp: fillna_str_def isnull_def)

lemma set_first_seen: "set (first_seen seen cs) = set seen \<union> {c \<in> set cs. \<not> isnull c}"
  by (induction cs arbitrary: seen) auto

lemma index_of_less: "c \<in> set us \<Longrightarrow> index_of c us < length us"
  by (induction us) auto

lemma pd_factorize_codes:
  assumes "\<And>c. c \<in> set feature \<Longrightarrow> \<not> isnull c" and "k \<in> set (fst (pd_factorize feature))"
  shows "0 \<le> k \<and> k < int (length (snd (pd_factorize feature)))"
proof -
  from assms(2) obtain c where c: "c \<in> set feature"
    and k: "k = (if isnull c then - 1 else int (index_of c (first_seen [] feature)))"
    by (auto simp: pd_factorize_def Let_def)
  from c assms(1) have n: "\<not> isnull c" by auto
  with c have "c \<in> set (first_seen [] feature)" by (simp add: set_first_seen)
  then have "index_of c (first_seen [] feature) < length (first_seen [] feature)"
    by (rule index_of_less)
  with k n show ?thesis by (simp add: pd_factorize_def Let_def)
qed

lemma pd_factorize_length: "length (fst (pd_factorize feature)) = length feature"
  by (simp add: pd_factorize_def Let_def)

lemma str_lens_nonempty: "Str s \<in> set cs \<Longrightarrow> str_lens cs \<noteq> []"
  by (induction cs) (auto simp: str_lens_def)

text \<open>
  C3, at a text column whose cells are all \<^verbatim>\<open>None\<close>: the two lengths for the log
  line are taken before the missing values are filled, both are NaN, and \<^verbatim>\<open>int\<close>
  raises ValueError outside the \<^verbatim>\<open>try\<close> block, with and without vectorization. Had
  the fill come first, the column would be the placeholder twice and factorize to the
  codes 0, 0.
\<close>

theorem text_all_missing_raises:
  "get_text_features example_lib example_globs
     \<lparr>cname = ''t'', ctype = dt_object, cells = [PyNone, PyNone]\<rparr> True 1 = Inl ValueError \<and>
   get_text_features example_lib example_globs
     \<lparr>cname = ''t'', ctype = dt_object, cells = [PyNone, PyNone]\<rparr> False 1 = Inl ValueError \<and>
   fillna_str (NULLTEXT example_globs) [PyNone, PyNone] = [Str ''NULLTEXT'', Str ''NULLTEXT''] \<and>
   fst (pd_factorize [Str ''NULLTEXT'', Str ''NULLTEXT'']) = [0, 0]"
  by (simp add: get_text_features_def str_lens_def int_min_def fillna_str_def isnull_def
      example_globs_def pd_factorize_def)

text \<open>
  On a column with at least one string the transform does return: the matrix of the
  vectorizer when vectorization is enabled and returns, and in every other case the
  codes of \<^verbatim>\<open>pd.factorize\<close> on the filled column, one for each row, none of them the
  code \<open>-1\<close> of a missing value.
\<close>

lemma get_text_features_returns:
  assumes "Str s \<in> set (cells fc)"
  shows "\<exists>m. get_text_features L G fc vec n = Inr m \<and>
           (if vec \<and> (\<exists>b. tfidf L n (fillna_str (NULLTEXT G) (cells fc)) = Inr b)
            then tfidf L n (fillna_str (NULLTEXT G) (cells fc)) = Inr m
            else m = as_column (map real_of_int
                       (fst (pd_factorize (fillna_str (NULLTEXT G) (cells fc)))))) \<and>
           length (fst (pd_factorize (fillna_str (NULLTEXT G) (cells fc)))) = length (cells fc) \<and>
           (\<forall>k \<in> set (fst (pd_factorize (fillna_str (NULLTEXT G) (cells fc)))).
              0 \<le> k \<and> k < int (length (snd (pd_factorize (fillna_str (NULLTEXT G) (cells fc))))))"
proof -
  let ?filled = "fillna_str (NULLTEXT G) (cells fc)"
  let ?codes = "as_column (map real_of_int (fst (pd_factorize ?filled)))"
  from assms obtain l r where lens: "str_lens (cells fc) = l # r"
    using str_lens_nonempty by (cases "str_lens (cells fc)") auto
  have ret: "get_text_features L G fc vec n =
          (if vec then (case tfidf L n ?filled of
                          Inr new_features \<Rightarrow> Inr new_features
                        | Inl e \<Rightarrow> Inr ?codes)
           else Inr ?codes)"
    by (simp add: get_text_features_def lens int_min_def int_max_def Let_def)
  have codes: "\<forall>k \<in> set (fst (pd_factorize ?filled)).
                 0 \<le> k \<and> k < int (length (snd (pd_factorize ?filled)))"
    using pd_factorize_codes [of ?filled] fillna_str_no_missing by blast
  have len: "length (fst (pd_factorize ?filled)) = length (cells fc)"
    by (simp add: pd_factorize_length fillna_str_def)
  show ?thesis
  proof (cases "vec \<and> (\<exists>b. tfidf L n ?filled = Inr b)")
    case True
    then obtain b where "tfidf L n ?filled = Inr b" by blast
    with True ret codes len show ?thesis by simp
  next
    case False
    then have "get_text_features L G fc vec n = Inr ?codes"
      using ret by (cases "tfidf L n ?filled") auto
    with False codes len show ?thesis by simp
  qed
qed

section \<open>Properties of the feature selector\<close>

lemma mask_columns_length:
  "length a = length support \<Longrightarrow>
   length (filter snd (zip a support)) = length (filter (\<lambda>b. b) support)"
  by (induction a support rule: list_induct2) auto

lemma mask_columns_Inr:
  "mask_columns a support = Inr b \<Longrightarrow>
   length support = length a \<and> b = map fst (filter snd (zip a support)) \<and>
   length b = length (filter (\<lambda>b. b) support)"
  by (auto simp: mask_columns_def mask_columns_length split: if_splits)

lemma select_features_Inr:
  assumes "select_features L m = Inr m'"
  shows "\<exists>support a b.
           SelectPercentile L (fs_score_func (specs m)) (fs_percentage (specs m))
             (X_train m) (y_train m) = Inr support \<and>
           mask_columns (X_train m) support = Inr a \<and>
           mask_columns (X_test m) support = Inr b \<and>
           m' = m\<lparr>X_train := a, X_test := b\<rparr>"
  using assms by (auto simp: select_features_def split: sum.splits)

text \<open>
  C8: whenever \<^verbatim>\<open>select_features\<close> returns, the support mask is the one fitted on the
  training matrix and the training labels, it has one entry for each column of both
  matrices, both returned matrices keep exactly the columns at the positions the mask
  marks, so they have the same number of columns, which is at most the number of input
  columns. The returned training matrix does not depend on the test matrix. And the
  function does return whenever the fit returns a mask with one entry for each training
  column and the test matrix has as many columns as the training matrix.
\<close>

theorem select_features_mask:
  "(select_features L m = Inr m' \<longrightarrow>
      (\<exists>support.
         SelectPercentile L (fs_score_func (specs m)) (fs_percentage (specs m))
           (X_train m) (y_train m) = Inr support \<and>
         length support = length (X_train m) \<and>
         length support = length (X_test m) \<and>
         X_train m' = map fst (filter snd (zip (X_train m) support)) \<and>
         X_test m' = map fst (filter snd (zip (X_test m) support)) \<and>
         length (X_train m') = length (X_test m') \<and>
         length (X_train m') \<le> length (X_train m))) \<and>
   (select_features L m = Inr m' \<and> select_features L (m\<lparr>X_test := T\<rparr>) = Inr m''
      \<longrightarrow> X_train m'' = X_train m') \<and>
   (SelectPercentile L (fs_score_func (specs m)) (fs_percentage (specs m))
      (X_train m) (y_train m) = Inr support \<and>
    length support = length (X_train m) \<and> length (X_test m) = length (X_train m)
      \<longrightarrow> (\<exists>r. select_features L m = Inr r))"
proof (intro conjI impI)
  assume "select_features L m = Inr m'"
  then obtain support a b where
      fit: "SelectPercentile L (fs_score_func (specs m)) (fs_percentage (specs m))
              (X_train m) (y_train m) = Inr support"
    and a: "mask_columns (X_train m) support = Inr a"
    and b: "mask_columns (X_test m) support = Inr b"
    and m': "m' = m\<lparr>X_train := a, X_test := b\<rparr>"
    using select_features_Inr by blast
  note A = mask_columns_Inr [OF a] and B = mask_columns_Inr [OF b]
  have "length a \<le> length (X_train m)"
    using A by (metis length_filter_le)
  with fit A B m' show "\<exists>support.
         SelectPercentile L (fs_score_func (specs m)) (fs_percentage (specs m))
           (X_train m) (y_train m) = Inr support \<and>
         length support = length (X_train m) \<and>
         length support = length (X_test m) \<and>
         X_train m' = map fst (filter snd (zip (X_train m) support)) \<and>
         X_test m' = map fst (filter snd (zip (X_test m) support)) \<and>
         length (X_train m') = length (X_test m') \<and>
         length (X_train m') \<le> length (X_train m)"
    by auto
next
  assume "select_features L m = Inr m' \<and> select_features L (m\<lparr>X_test := T\<rparr>) = Inr m''"
  then show "X_train m'' = X_train m'"
    by (auto simp: select_features_def split: sum.splits)
next
  assume "SelectPercentile L (fs_score_func (specs m)) (fs_percentage (specs m))
      (X_train m) (y_train m) = Inr support \<and>
    length support = length (X_train m) \<and> length (X_test m) = length (X_train m)"
  then show "\<exists>r. select_features L m = Inr r"
    by (simp add: select_features_def mask_columns_def)
qed

theorem select_features_mask_witness:
  "select_features example_lib example_model =
     Inr (example_model\<lparr>X_train := [[1, 2], [3, 0]], X_test := [[5], [7]]\<rparr>) \<and>
   length (X_train (example_model\<lparr>X_train := [[1, 2], [3, 0]], X_test := [[5], [7]]\<rparr>)) = 2 \<and>
   (\<exists>r. select_features example_lib example_model = Inr r)"
proof -
  have run: "select_features example_lib example_model =
     Inr (example_model\<lparr>X_train := [[1, 2], [3, 0]], X_test := [[5], [7]]\<rparr>)"
    by (simp add: select_features_def example_lib_def example_model_def mask_columns_def)
  have fit: "SelectPercentile example_lib (fs_score_func (specs example_model))
      (fs_percentage (specs example_model)) (X_train example_model) (y_train example_model)
      = Inr [True, False, True]"
    by (simp add: example_lib_def example_model_def)
  have lens: "length [True, False, True] = length (X_train example_model) \<and>
      length (X_test example_model) = length (X_train example_model)"
    by (simp add: example_model_def)
  from select_features_mask [of example_lib example_model
       "example_model\<lparr>X_train := [[1, 2], [3, 0]], X_test := [[5], [7]]\<rparr>"
       "[[5], [6], [7]]" "example_model\<lparr>X_train := [[1, 2], [3, 0]], X_test := [[5], [7]]\<rparr>"
       "[True, False, True]"] run fit lens
  show ?thesis by (simp add: example_model_def)
qed

text \<open>
  C10: the model returned by \<^verbatim>\<open>select_features\<close> is the given model with the fields
  \<^verbatim>\<open>X_train\<close> and \<^verbatim>\<open>X_test\<close> replaced; \<^verbatim>\<open>y_train\<close>, \<^verbatim>\<open>y_test\<close> and the
  options are unchanged.
\<close>

theorem select_features_frame:
  assumes "select_features L m = Inr m'"
  shows "y_train m' = y_train m \<and> y_test m' = y_test m \<and> specs m' = specs m \<and>
         m' = m\<lparr>X_train := X_train m', X_test := X_test m'\<rparr>"
  using assms by (auto simp: select_features_def split: sum.splits)

theorem select_features_frame_witness:
  "select_features example_lib example_model =
     Inr (example_model\<lparr>X_train := [[1, 2], [3, 0]], X_test := [[5], [7]]\<rparr>) \<and>
   y_train (example_model\<lparr>X_train := [[1, 2], [3, 0]], X_test := [[5], [7]]\<rparr>) = [1, 0] \<and>
   y_test (example_model\<lparr>X_train := [[1, 2], [3, 0]], X_test := [[5], [7]]\<rparr>) = [1] \<and>
   specs (example_model\<lparr>X_train := [[1, 2], [3, 0]], X_test := [[5], [7]]\<rparr>) = example_specs"
proof -
  have run: "select_features example_lib example_model =
     Inr (example_model\<lparr>X_train := [[1, 2], [3, 0]], X_test := [[5], [7]]\<rparr>)"
    by (simp add: select_features_def example_lib_def example_model_def mask_columns_def)
  from select_features_frame [OF run] run show ?thesis
    by (simp add: example_model_def)
qed

section \<open>Properties of the pipeline\<close>




lemma apply_cells_float_factor_error:
  "apply_cells (\<lambda>x. float_factor x rnd) cs = Inl e \<Longrightarrow> e = ValueError \<or> e = TypeError"
  by (induction cs arbitrary: e)
     (auto simp: float_factor_def split: if_splits cell.splits sum.splits)






text \<open>
  C9, at a column \<open>c = [1, 0, 1, 1]\<close> of cardinality 2 with the treatment
  \<^verbatim>\<open>runs_test(df, 'c', ['runs'], 2)\<close>, the encoder \<^verbatim>\<open>factorize\<close> and a dummy limit of
  10: the treatment's block, the run counts 0, 2, 2, 1 of the windows of size 2, is
  appended, and the dispatch then calls \<^verbatim>\<open>get_factors\<close> for the same column, which
  returns \<^verbatim>\<open>None\<close>; the codes 0, 1, 0, 0 of the default transform are not appended
  and the matrix has the treatment's column only.
\<close>

theorem treated_factorize_column:
  "fst (pd_factorize [Num 1, Num 0, Num 1, Num 1]) = [0, 1, 0, 0] \<and>
   apply_treatment example_lib ''c''
     [\<lparr>cname = ''c'', ctype = dt_int64, cells = [Num 1, Num 0, Num 1, Num 1]\<rparr>]
     [''runs_test'', ''['' @ [CHR 0x27] @ ''runs'' @ [CHR 0x27] @ '']'', ''2'']
     = Inr [[0], [2], [2], [1]] \<and>
   create_features example_lib example_generators example_globs
     [\<lparr>cname = ''c'', ctype = dt_int64, cells = [Num 1, Num 0, Num 1, Num 1]\<rparr>]
     (example_specs\<lparr>model_type := regression,
        treatments := [''c'' \<mapsto>
          [''runs_test'', ''['' @ [CHR 0x27] @ ''runs'' @ [CHR 0x27] @ '']'', ''2'']]\<rparr>)
     4 [1, 2, 3, 4] = Inr [[0], [2], [2], [1]]"
proof -
  let ?fc = "\<lparr>cname = ''c'', ctype = dt_int64, cells = [Num 1, Num 0, Num 1, Num 1]\<rparr>"
  have t: "apply_treatment example_lib ''c'' [?fc]
     [''runs_test'', ''['' @ [CHR 0x27] @ ''runs'' @ [CHR 0x27] @ '']'', ''2'']
     = Inr [[0], [2], [2], [1]]"
    by (simp add: apply_treatment_def example_lib_def example_call_def runs_test_def
        all_funcs_def rolling_window_def num_value_def runs_def numeral_eq_Suc)
  have f: "fst (pd_factorize [Num 1, Num 0, Num 1, Num 1]) = [0, 1, 0, 0]"
    by (simp add: pd_factorize_def isnull_def)
  have c: "create_features example_lib example_generators example_globs [?fc]
     (example_specs\<lparr>model_type := regression,
        treatments := [''c'' \<mapsto>
          [''runs_test'', ''['' @ [CHR 0x27] @ ''runs'' @ [CHR 0x27] @ '']'', ''2'']]\<rparr>)
     4 [1, 2, 3, 4] = Inr [[0], [2], [2], [1]]"
    using t
    by (simp add: create_features_def base_features_def example_specs_def and_then_def
      column_step_def treat_column_def standard_features_def n_unique_def get_factors_def
      scale_features_def derived_features_def add_features_def pd_factorize_def nrows_def
      column_stack_def isnull_def numeral_eq_Suc)
  from f t c show ?thesis by blast
qed
text \<open>
  Apart from that, the treatment does not change what the dispatch does: the loop body
  for a treated column is the loop body without treatments, run on the matrix with the
  treatment's block stacked on.
\<close>

lemma standard_features_treatments:
  "standard_features L G (S\<lparr>treatments := t\<rparr>) split_point labels fc =
   standard_features L G S split_point labels fc"
  by (simp add: standard_features_def Let_def cong: if_cong)

lemma column_step_after_treatment:
  assumes "treatments S (cname fc) = Some fparams"
      and "apply_treatment L (cname fc) X fparams = Inr tblock"
      and "column_stack all_features tblock = Inr treated"
  shows "column_step L G S X split_point labels fc all_features =
           column_step L G (S\<lparr>treatments := Map.empty\<rparr>) X split_point labels fc treated"
  using assms
  by (simp add: column_step_def treat_column_def standard_features_treatments)

end
